theory Spec2Isabelle
  imports Complex_Main
begin

section \<open>Distance computation and nearest-marker ranking of \<open>src/App.jsx\<close>\<close>

text \<open>
  The component keeps a list of markers fetched from the API, the observer's position
  and a flag \<open>locationEnabled\<close>. One effect (lines 118 to 133 of \<open>App.jsx\<close>) derives from
  them the list \<open>distances\<close> and the value \<open>nearestMarker\<close>; it calls
  \<open>haversineDistance\<close> (lines 58 to 80).
\<close>

subsection \<open>Values\<close>

text \<open>
  A JavaScript Number is \<open>NaN\<close>, one of the two infinities, or a finite double, which
  is a real number (the two zeros are both \<open>Fin 0\<close>; they compare equal).
\<close>

datatype jsnum = NaN | MinusInfinity | Fin real | PlusInfinity

text \<open>
  The values of JSON and of the objects built from them. An object nested in a value is
  a list of its properties.
\<close>

datatype jsval =
    Undefined
  | Null
  | Boolean bool
  | Number jsnum
  | Str string
  | Array "jsval list"
  | Object "(string \<times> jsval) list"

text \<open>
  A marker is one object of the JSON array that the API returns, with whatever
  properties it has: a map from property names to values. Reading a property that the
  object does not have gives \<open>undefined\<close>.
\<close>

type_synonym object = "string \<rightharpoonup> jsval"

definition get :: "object \<Rightarrow> string \<Rightarrow> jsval" where
  "get obj k = (case obj k of None \<Rightarrow> Undefined | Some v \<Rightarrow> v)"

text \<open>The exception that \<open>Array.prototype.reduce\<close> throws.\<close>

datatype error = TypeError

subsection \<open>Comparison of Numbers\<close>

text \<open>
  \<open>x < y\<close> on two Numbers: false when either is \<open>NaN\<close>, and otherwise the order of
  the extended real line.
\<close>

fun jsless :: "jsnum \<Rightarrow> jsnum \<Rightarrow> bool" where
  "jsless NaN y = False"
| "jsless x NaN = False"
| "jsless x MinusInfinity = False"
| "jsless MinusInfinity y = True"
| "jsless PlusInfinity y = False"
| "jsless (Fin x) (Fin y) = (x < y)"
| "jsless (Fin x) PlusInfinity = True"

text \<open>\<open>x <= y\<close> on two Numbers: false when either is \<open>NaN\<close>, otherwise \<open>y < x\<close> negated.\<close>

definition jslesseq :: "jsnum \<Rightarrow> jsnum \<Rightarrow> bool" where
  "jslesseq x y = (x \<noteq> NaN \<and> y \<noteq> NaN \<and> \<not> jsless y x)"

subsection \<open>\<open>haversineDistance\<close> in exact arithmetic\<close>

text \<open>
  The engine evaluates \<open>haversineDistance\<close> in IEEE double arithmetic, with its own
  \<open>Math.sin\<close>, \<open>Math.cos\<close>, \<open>Math.sqrt\<close> and \<open>Math.atan2\<close>. The following is the same
  expression read over the real numbers, for finite coordinates: \<open>Math.PI\<close> is \<open>pi\<close> and
  no operation rounds. It is the value that the doubles approximate; the ranking effect
  below does not depend on it.

  \<open>Math.atan2(y, x)\<close> on real arguments is the angle of the point \<open>(x, y)\<close> in
  \<open>(-pi, pi]\<close>, and \<open>0\<close> at the origin.
\<close>

definition atan2 :: "real \<Rightarrow> real \<Rightarrow> real" where
  "atan2 y x =
     (if 0 < x then arctan (y / x)
      else if x < 0 then (if 0 \<le> y then arctan (y / x) + pi else arctan (y / x) - pi)
      else if 0 < y then pi / 2
      else if y < 0 then - (pi / 2)
      else 0)"

definition toRad :: "real \<Rightarrow> real" where
  "toRad x = (x * pi) / 180"

text \<open>
  The two arguments are two-element arrays \<open>[latitude, longitude]\<close>, here pairs:
  \<open>coords[0]\<close> is \<open>fst\<close> and \<open>coords[1]\<close> is \<open>snd\<close>.
\<close>

definition haversineDistance :: "real \<times> real \<Rightarrow> real \<times> real \<Rightarrow> real" where
  "haversineDistance coords1 coords2 =
     (let lat1 = fst coords1;
          lon1 = snd coords1;
          lat2 = fst coords2;
          lon2 = snd coords2;
          R = 6371;
          dLat = toRad (lat2 - lat1);
          dLon = toRad (lon2 - lon1);
          a = sin (dLat / 2) * sin (dLat / 2) +
              cos (toRad lat1) * cos (toRad lat2) * sin (dLon / 2) * sin (dLon / 2);
          c = 2 * atan2 (sqrt a) (sqrt (1 - a));
          d = R * c
      in d)"

subsection \<open>The ranking effect\<close>

text \<open>
  \<open>xs.reduce(f)\<close> with no initial value: the first element is the initial accumulator
  and the others are folded in from left to right; on an empty array it throws a
  \<open>TypeError\<close>.
\<close>

fun reduce :: "('a \<Rightarrow> 'a \<Rightarrow> 'a) \<Rightarrow> 'a list \<Rightarrow> error + 'a" where
  "reduce f [] = Inl TypeError"
| "reduce f (x # xs) = Inr (foldl f x xs)"

text \<open>
  \<open>r.distance\<close> as an operand of \<open><\<close>. In every object that line 122 builds the
  property is a Number (lemma \<open>newDistances_distance\<close> below), and that Number is the
  operand. A missing property reads \<open>undefined\<close>, which compares as \<open>NaN\<close>; values of
  other kinds do not occur under this name in those objects.
\<close>

definition distance :: "object \<Rightarrow> jsnum" where
  "distance r = (case r ''distance'' of Some (Number d) \<Rightarrow> d | _ \<Rightarrow> NaN)"

text \<open>The callback of line 128: \<^verbatim>\<open>(prev, curr) => (prev.distance < curr.distance ? prev : curr)\<close>.\<close>

definition nearer :: "object \<Rightarrow> object \<Rightarrow> object" where
  "nearer prev curr' = (if jsless (distance prev) (distance curr') then prev else curr')"

text \<open>
  Lines 119 to 123: the map over \<open>markers\<close>. The object literal
  \<^verbatim>\<open>{ ...marker, geocode: [marker.latitude, marker.longitude], distance: ... }\<close>
  copies every property of the marker and then sets \<open>geocode\<close> and \<open>distance\<close>, which
  replaces properties of these names that the marker has.

  The Number that the engine's \<open>haversineDistance\<close> returns for two arguments is the
  parameter \<open>hav\<close>: the effect is modelled for every such function, so that what is
  proved of it does not depend on how the doubles round.
\<close>

definition newDistances ::
  "(jsval \<Rightarrow> jsval \<Rightarrow> jsnum) \<Rightarrow> object list \<Rightarrow> jsval \<Rightarrow> bool \<Rightarrow> object list" where
  "newDistances hav markers position locationEnabled =
     map (\<lambda>marker. marker
            (''geocode'' \<mapsto> Array [get marker ''latitude'', get marker ''longitude''],
             ''distance'' \<mapsto> Number
               (if locationEnabled
                then hav position (Array [get marker ''latitude'', get marker ''longitude''])
                else Fin 0)))
       markers"

text \<open>
  The effect as a function of its three dependencies. Its result is the pair of the
  values passed to \<open>setDistances\<close> and \<open>setNearestMarker\<close> (\<open>None\<close> is \<open>null\<close>), or the
  exception that ends it.
\<close>

definition rank ::
  "(jsval \<Rightarrow> jsval \<Rightarrow> jsnum) \<Rightarrow> object list \<Rightarrow> jsval \<Rightarrow> bool \<Rightarrow>
     error + (object list \<times> object option)" where
  "rank hav markers position locationEnabled =
     (let nd = newDistances hav markers position locationEnabled
      in if locationEnabled
         then (case reduce nearer nd of
                 Inl e \<Rightarrow> Inl e
               | Inr nearest \<Rightarrow> Inr (nd, Some nearest))
         else Inr (nd, None))"

subsection \<open>Example data\<close>

text \<open>
  One function that can stand for \<open>hav\<close> in the instances evaluated below. For two
  arrays of two finite Numbers it is the exact value of \<open>haversineDistance\<close>. When a
  coordinate is \<open>undefined\<close>, \<open>NaN\<close> or infinite it is \<open>NaN\<close>, as in the code, where the
  subtraction or the sine already gives \<open>NaN\<close>. It is also \<open>NaN\<close> for the other kinds of
  values, which JavaScript would first convert to Numbers; no instance below uses them.
\<close>

fun finite_coords :: "jsval \<Rightarrow> (real \<times> real) option" where
  "finite_coords (Array [Number (Fin lat), Number (Fin lon)]) = Some (lat, lon)"
| "finite_coords v = None"

definition exactDistance :: "jsval \<Rightarrow> jsval \<Rightarrow> jsnum" where
  "exactDistance coords1 coords2 =
     (case (finite_coords coords1, finite_coords coords2) of
        (Some c1, Some c2) \<Rightarrow> Fin (haversineDistance c1 c2)
      | _ \<Rightarrow> NaN)"

abbreviation (input) coords_at :: "real \<Rightarrow> real \<Rightarrow> jsval" where
  "coords_at lat lon \<equiv> Array [Number (Fin lat), Number (Fin lon)]"

abbreviation (input) marker_at :: "real \<Rightarrow> real \<Rightarrow> real \<Rightarrow> object" where
  "marker_at i lat lon \<equiv>
     [''id'' \<mapsto> Number (Fin i), ''name'' \<mapsto> Str ''cyber'', ''address'' \<mapsto> Str ''street'',
      ''latitude'' \<mapsto> Number (Fin lat), ''longitude'' \<mapsto> Number (Fin lon),
      ''printers'' \<mapsto> Str ''1'']"

abbreviation (input) ranked_at :: "real \<Rightarrow> real \<Rightarrow> real \<Rightarrow> jsnum \<Rightarrow> object" where
  "ranked_at i lat lon d \<equiv>
     (marker_at i lat lon)(''geocode'' \<mapsto> coords_at lat lon, ''distance'' \<mapsto> Number d)"

text \<open>A marker without the property \<open>latitude\<close>, and the element built from it.\<close>

abbreviation (input) marker_no_latitude :: "real \<Rightarrow> real \<Rightarrow> object" where
  "marker_no_latitude i lon \<equiv>
     [''id'' \<mapsto> Number (Fin i), ''name'' \<mapsto> Str ''cyber'', ''address'' \<mapsto> Str ''street'',
      ''longitude'' \<mapsto> Number (Fin lon), ''printers'' \<mapsto> Str ''1'']"

abbreviation (input) ranked_no_latitude :: "real \<Rightarrow> real \<Rightarrow> jsnum \<Rightarrow> object" where
  "ranked_no_latitude i lon d \<equiv>
     (marker_no_latitude i lon)
       (''geocode'' \<mapsto> Array [Undefined, Number (Fin lon)], ''distance'' \<mapsto> Number d)"

section \<open>Properties\<close>

subsection \<open>Helper lemmas: the map\<close>

lemma length_newDistances: "length (newDistances hav ms pos en) = length ms"
  by (simp add: newDistances_def)

lemma newDistances_eq_Nil: "newDistances hav ms pos en = [] \<longleftrightarrow> ms = []"
  by (simp add: newDistances_def)

lemma nth_newDistances:
  "i < length ms \<Longrightarrow>
   newDistances hav ms pos en ! i =
     (ms ! i)
       (''geocode'' \<mapsto> Array [get (ms ! i) ''latitude'', get (ms ! i) ''longitude''],
        ''distance'' \<mapsto> Number
          (if en
           then hav pos (Array [get (ms ! i) ''latitude'', get (ms ! i) ''longitude''])
           else Fin 0))"
  by (simp add: newDistances_def)

text \<open>In every object that the map builds, the property \<open>distance\<close> is a Number.\<close>

lemma newDistances_distance:
  "r \<in> set (newDistances hav ms pos en) \<Longrightarrow> \<exists>d. r ''distance'' = Some (Number d)"
  by (auto simp: newDistances_def)

lemma newDistances_disabled_distance:
  "r \<in> set (newDistances hav ms pos False) \<Longrightarrow> r ''distance'' = Some (Number (Fin 0))"
  by (auto simp: newDistances_def)

lemma cut_newDistances:
  "map (\<lambda>r. r |` (- {''geocode'', ''distance''})) (newDistances hav ms pos en) =
   map (\<lambda>m. m |` (- {''geocode'', ''distance''})) ms"
  by (auto simp: newDistances_def fun_eq_iff restrict_map_def)

lemma cut_id:
  "''geocode'' \<notin> dom m \<Longrightarrow> ''distance'' \<notin> dom m \<Longrightarrow>
   m |` (- {''geocode'', ''distance''}) = m"
  by (auto simp: fun_eq_iff restrict_map_def dom_def)

lemma rank_enabled_Cons:
  "newDistances hav ms pos True = r # rs \<Longrightarrow>
   rank hav ms pos True = Inr (r # rs, Some (foldl nearer r rs))"
  by (simp add: rank_def)

lemma rank_enabled_nonempty:
  assumes "ms \<noteq> []"
  obtains r rs where "newDistances hav ms pos True = r # rs"
    and "rank hav ms pos True = Inr (r # rs, Some (foldl nearer r rs))"
proof -
  from assms have "newDistances hav ms pos True \<noteq> []"
    by (simp add: newDistances_eq_Nil)
  then obtain r rs where "newDistances hav ms pos True = r # rs"
    by (cases "newDistances hav ms pos True") auto
  then show ?thesis using that rank_enabled_Cons by blast
qed

lemma rank_Inr_ranked:
  "rank hav ms pos en = Inr (ranked', nearest) \<Longrightarrow> ranked' = newDistances hav ms pos en"
  by (auto simp: rank_def Let_def split: if_splits sum.splits)

subsection \<open>Helper lemmas: the order of Numbers\<close>

lemma jsless_imp_lesseq: "jsless x y \<Longrightarrow> jslesseq x y"
  by (cases x; cases y) (simp_all add: jslesseq_def)


lemma jslesseq_trans: "jslesseq x y \<Longrightarrow> jslesseq y z \<Longrightarrow> jslesseq x z"
  by (cases x; cases y; cases z) (simp_all add: jslesseq_def)

lemma not_jsless_imp_lesseq: "x \<noteq> NaN \<Longrightarrow> y \<noteq> NaN \<Longrightarrow> \<not> jsless x y \<Longrightarrow> jslesseq y x"
  by (simp add: jslesseq_def)

subsection \<open>Helper lemmas: the reduction\<close>

lemma foldl_nearer_mem: "foldl nearer r rs \<in> set (r # rs)"
proof (induction rs rule: rev_induct)
  case Nil
  show ?case by simp
next
  case (snoc y ys)
  have "foldl nearer r (ys @ [y]) = foldl nearer r ys \<or> foldl nearer r (ys @ [y]) = y"
    by (simp add: nearer_def)
  with snoc show ?case by auto
qed

text \<open>
  When no distance is \<open>NaN\<close>, the result of the fold splits the list: no element before
  it is nearer, and every element after it is strictly farther. The proof adds the
  elements at the end, as the fold does.
\<close>

lemma foldl_nearer_split:
  assumes "\<forall>x\<in>set (r # rs). distance x \<noteq> NaN"
  shows "\<exists>pre post. r # rs = pre @ foldl nearer r rs # post \<and>
     (\<forall>x\<in>set pre. jslesseq (distance (foldl nearer r rs)) (distance x)) \<and>
     (\<forall>x\<in>set post. jsless (distance (foldl nearer r rs)) (distance x))"
  using assms
proof (induction rs rule: rev_induct)
  case Nil
  have "[r] = [] @ foldl nearer r [] # []" by simp
  then show ?case by fastforce
next
  case (snoc y ys)
  let ?n = "foldl nearer r ys"
  from snoc.prems have num: "\<forall>x\<in>set (r # ys). distance x \<noteq> NaN" and y: "distance y \<noteq> NaN"
    by simp_all
  from snoc.IH [OF num] obtain pre post where
    split: "r # ys = pre @ ?n # post" and
    pre: "\<forall>x\<in>set pre. jslesseq (distance ?n) (distance x)" and
    post: "\<forall>x\<in>set post. jsless (distance ?n) (distance x)"
    by blast
  have n: "distance ?n \<noteq> NaN"
    using num foldl_nearer_mem [of r ys] by blast
  show ?case
  proof (cases "jsless (distance ?n) (distance y)")
    case True
    then have keep: "foldl nearer r (ys @ [y]) = ?n"
      by (simp add: nearer_def)
    have "r # ys @ [y] = pre @ ?n # (post @ [y])"
      using split by simp
    moreover have "\<forall>x\<in>set (post @ [y]). jsless (distance ?n) (distance x)"
      using post True by simp
    ultimately show ?thesis
      unfolding keep using pre by blast
  next
    case False
    then have repl: "foldl nearer r (ys @ [y]) = y"
      by (simp add: nearer_def)
    from False n y have yn: "jslesseq (distance y) (distance ?n)"
      by (rule not_jsless_imp_lesseq [rotated 2])
    have "r # ys @ [y] = (pre @ ?n # post) @ y # []"
      using split by simp
    moreover have "\<forall>x\<in>set (pre @ ?n # post). jslesseq (distance y) (distance x)"
      using pre post yn jslesseq_trans jsless_imp_lesseq by fastforce
    moreover have "\<forall>x\<in>set []. jsless (distance y) (distance x)"
      by simp
    ultimately show ?thesis
      unfolding repl by blast
  qed
qed


subsection \<open>Helper lemmas: the distance in exact arithmetic\<close>

lemma sin_half_sq: "sin (x / 2) * sin (x / 2) = (1 - cos x) / (2::real)"
  using cos_double_sin [of "x / 2"] by (simp add: power2_eq_square)

lemma half_unit:
  fixes c :: real
  assumes "- 1 \<le> c" "c \<le> 1"
  shows "0 \<le> (1 - c) / 2" "(1 - c) / 2 \<le> 1" "0 \<le> (1 + c) / 2" "(1 + c) / 2 \<le> 1"
  using assms by simp_all

lemma convex_unit:
  fixes s A B :: real
  assumes "0 \<le> s" "s \<le> 1" "0 \<le> A" "A \<le> 1" "0 \<le> B" "B \<le> 1"
  shows "0 \<le> (1 - s) * A + s * B" and "(1 - s) * A + s * B \<le> 1"
proof -
  show "0 \<le> (1 - s) * A + s * B"
    using assms by simp
  have "(1 - s) * A \<le> (1 - s) * 1"
    using assms by (intro mult_left_mono) simp_all
  moreover have "s * B \<le> s * 1"
    using assms by (intro mult_left_mono) simp_all
  ultimately show "(1 - s) * A + s * B \<le> 1"
    by simp
qed

text \<open>
  The value \<open>a\<close> is a mean of \<open>(1 - cos (q - p)) / 2\<close> and \<open>(1 + cos (p + q)) / 2\<close>
  with weights \<open>1 - sin\<^sup>2 l\<close> and \<open>sin\<^sup>2 l\<close>, so it lies between 0 and 1.
\<close>

lemma hav_bounds:
  fixes p q l :: real
  defines "a \<equiv> sin ((q - p) / 2) * sin ((q - p) / 2) + cos p * cos q * sin l * sin l"
  shows "0 \<le> a \<and> a \<le> 1"
proof -
  define s where "s = sin l * sin l"
  define A where "A = (1 - cos (q - p)) / 2"
  define B where "B = (1 + cos (p + q)) / 2"
  have "sin l * sin l + cos l * cos l = 1"
    using sin_cos_squared_add [of l] by (simp add: power2_eq_square)
  moreover have "0 \<le> cos l * cos l"
    by simp
  ultimately have "sin l * sin l \<le> 1"
    by linarith
  then have s: "0 \<le> s" "s \<le> 1"
    by (simp_all add: s_def)
  have A0: "0 \<le> A" and A1: "A \<le> 1"
    unfolding A_def by (rule half_unit [OF cos_ge_minus_one cos_le_one])+
  have B0: "0 \<le> B" and B1: "B \<le> 1"
    unfolding B_def by (rule half_unit [OF cos_ge_minus_one cos_le_one])+
  have "a = (1 - s) * A + s * B"
    unfolding a_def sin_half_sq A_def B_def s_def cos_diff cos_add
    by (simp add: field_simps)
  then show ?thesis
    using convex_unit [OF s A0 A1 B0 B1] by simp
qed

text \<open>
  In exact arithmetic both arguments of \<open>Math.sqrt\<close> in \<open>haversineDistance\<close> are never
  negative, for any latitudes and longitudes. In doubles \<open>a\<close> can round to a value
  above 1, and then the square root of \<open>1 - a\<close> is \<open>NaN\<close>.
\<close>

lemma haversineDistance_sqrt_arguments:
  fixes lat1 lat2 lon1 lon2 :: real
  defines "a \<equiv> sin (toRad (lat2 - lat1) / 2) * sin (toRad (lat2 - lat1) / 2) +
              cos (toRad lat1) * cos (toRad lat2) *
              sin (toRad (lon2 - lon1) / 2) * sin (toRad (lon2 - lon1) / 2)"
  shows "0 \<le> a \<and> 0 \<le> 1 - a"
proof -
  have "toRad (lat2 - lat1) = toRad lat2 - toRad lat1"
    by (simp add: toRad_def diff_divide_distrib left_diff_distrib)
  then show ?thesis
    using hav_bounds [of "toRad lat2" "toRad lat1" "toRad (lon2 - lon1) / 2"]
    by (simp add: a_def)
qed

text \<open>Two distances from the point \<open>(0, 0)\<close>: to itself, and half way round the equator.\<close>

lemma exactDistance_origin: "exactDistance (coords_at 0 0) (coords_at 0 0) = Fin 0"
  by (simp add: exactDistance_def haversineDistance_def toRad_def atan2_def)

lemma exactDistance_half_equator:
  "exactDistance (coords_at 0 0) (coords_at 0 180) = Fin (6371 * pi)"
  by (simp add: exactDistance_def haversineDistance_def toRad_def atan2_def)

lemma exactDistance_undefined:
  "exactDistance (coords_at 0 0) (Array [Undefined, Number (Fin lon)]) = NaN"
  by (simp add: exactDistance_def)

lemmas rank_eval =
  rank_def newDistances_def nearer_def distance_def get_def
  exactDistance_origin exactDistance_half_equator exactDistance_undefined

lemma ranked_at_neq: "i \<noteq> j \<Longrightarrow> ranked_at i lat lon d \<noteq> ranked_at j lat' lon' d'"
  by (auto dest!: fun_cong [where x = "''id''"])

subsection \<open>Distance\<close>


subsection \<open>Ranking\<close>

text \<open>
  C1, as the specification states it: when several elements tie for the minimal
  distance, the nearest is the first of them. It fails twice. With the observer at
  \<open>(0, 0)\<close> and two markers there, both distances are 0 and the reduction returns the
  second element, since \<open>0 < 0\<close> is false. With a third marker that has no latitude,
  its distance is \<open>NaN\<close>, \<open>0 < NaN\<close> is false, and the reduction returns the third
  element, which is none of the two that tie.
\<close>

theorem rank_tie_first_counterexample:
  "rank exactDistance [marker_at 1 0 0, marker_at 2 0 0] (coords_at 0 0) True =
     Inr ([ranked_at 1 0 0 (Fin 0), ranked_at 2 0 0 (Fin 0)], Some (ranked_at 2 0 0 (Fin 0))) \<and>
   distance (ranked_at 1 0 0 (Fin 0)) = distance (ranked_at 2 0 0 (Fin 0)) \<and>
   ranked_at 2 0 0 (Fin 0) \<noteq> ranked_at 1 0 0 (Fin 0) \<and>
   rank exactDistance [marker_at 1 0 0, marker_at 2 0 0, marker_no_latitude 3 0]
       (coords_at 0 0) True =
     Inr ([ranked_at 1 0 0 (Fin 0), ranked_at 2 0 0 (Fin 0), ranked_no_latitude 3 0 NaN],
          Some (ranked_no_latitude 3 0 NaN)) \<and>
   distance (ranked_no_latitude 3 0 NaN) = NaN"
proof -
  have "ranked_at 2 0 0 (Fin 0) \<noteq> ranked_at 1 0 0 (Fin 0)"
    by (rule ranked_at_neq) simp
  then show ?thesis
    by (simp add: rank_eval)
qed

text \<open>
  C1, amended: for a non-empty list of markers and an enabled observer, when no computed
  distance is \<open>NaN\<close>, the nearest is the last element of minimal distance: no element
  before it in the list is nearer, and every element after it is strictly farther (the
  reduction keeps the current best only on strict less-than).
\<close>

theorem rank_nearest_last_minimal:
  assumes "ms \<noteq> []"
    and "\<forall>r\<in>set (newDistances hav ms pos True). distance r \<noteq> NaN"
  shows "\<exists>pre n post. rank hav ms pos True = Inr (pre @ n # post, Some n) \<and>
           (\<forall>r\<in>set pre. jslesseq (distance n) (distance r)) \<and>
           (\<forall>r\<in>set post. jsless (distance n) (distance r))"
proof -
  from assms(1) obtain r rs where
    nd: "newDistances hav ms pos True = r # rs" and
    rk: "rank hav ms pos True = Inr (r # rs, Some (foldl nearer r rs))"
    by (rule rank_enabled_nonempty)
  from assms(2) have "\<forall>x\<in>set (r # rs). distance x \<noteq> NaN"
    unfolding nd .
  then obtain pre post where
    "r # rs = pre @ foldl nearer r rs # post"
    "\<forall>x\<in>set pre. jslesseq (distance (foldl nearer r rs)) (distance x)"
    "\<forall>x\<in>set post. jsless (distance (foldl nearer r rs)) (distance x)"
    using foldl_nearer_split [of r rs] by blast
  with rk show ?thesis by metis
qed

theorem rank_nearest_last_minimal_witness:
  "[marker_at 1 0 0, marker_at 2 0 0, marker_at 3 0 180] \<noteq> [] \<and>
   distance (ranked_at 1 0 0 (Fin 0)) \<noteq> NaN \<and>
   distance (ranked_at 2 0 0 (Fin 0)) \<noteq> NaN \<and>
   distance (ranked_at 3 0 180 (Fin (6371 * pi))) \<noteq> NaN \<and>
   rank exactDistance [marker_at 1 0 0, marker_at 2 0 0, marker_at 3 0 180] (coords_at 0 0) True =
     Inr ([ranked_at 1 0 0 (Fin 0)] @ ranked_at 2 0 0 (Fin 0) #
            [ranked_at 3 0 180 (Fin (6371 * pi))],
          Some (ranked_at 2 0 0 (Fin 0))) \<and>
   jslesseq (distance (ranked_at 2 0 0 (Fin 0))) (distance (ranked_at 1 0 0 (Fin 0))) \<and>
   jsless (distance (ranked_at 2 0 0 (Fin 0))) (distance (ranked_at 3 0 180 (Fin (6371 * pi))))"
proof -
  let ?ms = "[marker_at 1 0 0, marker_at 2 0 0, marker_at 3 0 180]"
  let ?r1 = "ranked_at 1 0 0 (Fin 0)" and ?r2 = "ranked_at 2 0 0 (Fin 0)"
  let ?r3 = "ranked_at 3 0 180 (Fin (6371 * pi))"
  have ne: "?ms \<noteq> []" by simp
  have nd: "newDistances exactDistance ?ms (coords_at 0 0) True = [?r1, ?r2, ?r3]"
    by (simp add: rank_eval)
  have num: "distance ?r1 \<noteq> NaN" "distance ?r2 \<noteq> NaN" "distance ?r3 \<noteq> NaN"
    by (simp_all add: distance_def)
  then have hyp: "\<forall>r\<in>set (newDistances exactDistance ?ms (coords_at 0 0) True). distance r \<noteq> NaN"
    unfolding nd by simp
  have ev: "rank exactDistance ?ms (coords_at 0 0) True = Inr ([?r1, ?r2, ?r3], Some ?r2)"
    by (simp add: rank_eval)
  have ne12: "?r1 \<noteq> ?r2" and ne32: "?r3 \<noteq> ?r2"
    by (rule ranked_at_neq, simp)+
  from rank_nearest_last_minimal [OF ne hyp] obtain pre n post where
    rk: "rank exactDistance ?ms (coords_at 0 0) True = Inr (pre @ n # post, Some n)" and
    pre: "\<forall>r\<in>set pre. jslesseq (distance n) (distance r)" and
    post: "\<forall>r\<in>set post. jsless (distance n) (distance r)"
    by blast
  from ev [unfolded rk] have n: "n = ?r2" and split: "pre @ ?r2 # post = [?r1, ?r2, ?r3]"
    by auto
  from split ne12 ne32 have "pre = [?r1] \<and> post = [?r3]"
    by (auto simp: append_eq_Cons_conv)
  with pre post n have "jslesseq (distance ?r2) (distance ?r1)" "jsless (distance ?r2) (distance ?r3)"
    by simp_all
  with ne ev num show ?thesis by simp
qed

text \<open>
  C2: on the empty list of markers with the observer enabled, the reduction has no
  element to start from and throws; the effect does not reach \<open>setNearestMarker\<close>.
\<close>

theorem rank_empty_enabled_throws: "rank hav [] pos True = Inl TypeError"
  by (simp add: rank_def newDistances_def)

text \<open>
  C3: the list that the effect produces has the length of the list of markers, and its
  elements are the markers in their order, each with \<open>geocode\<close> and \<open>distance\<close> set:
  without these two properties the produced list and the input list are the same, and
  when no marker has a property of these names, cutting the two off the produced list
  gives the input list back.
\<close>

theorem rank_preserves_length_and_order:
  assumes "rank hav ms pos en = Inr (ranked', nearest)"
  shows "length ranked' = length ms \<and>
         map (\<lambda>r. r |` (- {''geocode'', ''distance''})) ranked' =
           map (\<lambda>m. m |` (- {''geocode'', ''distance''})) ms \<and>
         ((\<forall>m\<in>set ms. ''geocode'' \<notin> dom m \<and> ''distance'' \<notin> dom m) \<longrightarrow>
            map (\<lambda>r. r |` (- {''geocode'', ''distance''})) ranked' = ms)"
proof -
  from assms have eq: "ranked' = newDistances hav ms pos en"
    by (rule rank_Inr_ranked)
  have "map (\<lambda>m. m |` (- {''geocode'', ''distance''})) ms = ms"
    if "\<forall>m\<in>set ms. ''geocode'' \<notin> dom m \<and> ''distance'' \<notin> dom m"
    using that by (intro map_idI cut_id) auto
  then show ?thesis
    unfolding eq by (simp only: length_newDistances cut_newDistances) simp
qed

theorem rank_preserves_length_and_order_witness:
  "rank exactDistance [marker_at 1 0 180, marker_at 2 0 0] (coords_at 0 0) True =
     Inr ([ranked_at 1 0 180 (Fin (6371 * pi)), ranked_at 2 0 0 (Fin 0)],
          Some (ranked_at 2 0 0 (Fin 0))) \<and>
   length [ranked_at 1 0 180 (Fin (6371 * pi)), ranked_at 2 0 0 (Fin 0)] =
     length [marker_at 1 0 180, marker_at 2 0 0] \<and>
   map (\<lambda>r. r |` (- {''geocode'', ''distance''}))
       [ranked_at 1 0 180 (Fin (6371 * pi)), ranked_at 2 0 0 (Fin 0)] =
     [marker_at 1 0 180, marker_at 2 0 0]"
proof -
  have ev: "rank exactDistance [marker_at 1 0 180, marker_at 2 0 0] (coords_at 0 0) True =
      Inr ([ranked_at 1 0 180 (Fin (6371 * pi)), ranked_at 2 0 0 (Fin 0)],
           Some (ranked_at 2 0 0 (Fin 0)))"
    by (simp add: rank_eval)
  have keys: "\<forall>m\<in>set [marker_at 1 0 180, marker_at 2 0 0].
      ''geocode'' \<notin> dom m \<and> ''distance'' \<notin> dom m"
    by simp
  from rank_preserves_length_and_order [OF ev] keys
  have "map (\<lambda>r. r |` (- {''geocode'', ''distance''}))
          [ranked_at 1 0 180 (Fin (6371 * pi)), ranked_at 2 0 0 (Fin 0)] =
        [marker_at 1 0 180, marker_at 2 0 0]"
    by blast
  with ev show ?thesis by simp
qed




text \<open>
  C5: with \<open>locationEnabled = false\<close> the effect returns, every element of the produced
  list has distance 0, and the nearest is \<open>null\<close>.
\<close>

theorem rank_disabled_zero:
  "rank hav ms pos False = Inr (newDistances hav ms pos False, None) \<and>
   (\<forall>r\<in>set (newDistances hav ms pos False).
      r ''distance'' = Some (Number (Fin 0)) \<and> distance r = Fin 0)"
  by (auto simp: rank_def distance_def dest: newDistances_disabled_distance)

theorem rank_disabled_zero_witness:
  "rank exactDistance [marker_at 1 48 2, marker_at 2 0 180] (coords_at 5 7) False =
     Inr ([ranked_at 1 48 2 (Fin 0), ranked_at 2 0 180 (Fin 0)], None) \<and>
   distance (ranked_at 1 48 2 (Fin 0)) = Fin 0 \<and> distance (ranked_at 2 0 180 (Fin 0)) = Fin 0"
proof -
  have nd: "newDistances exactDistance [marker_at 1 48 2, marker_at 2 0 180] (coords_at 5 7) False =
      [ranked_at 1 48 2 (Fin 0), ranked_at 2 0 180 (Fin 0)]"
    by (simp add: newDistances_def get_def)
  from rank_disabled_zero [of exactDistance "[marker_at 1 48 2, marker_at 2 0 180]" "coords_at 5 7"]
  show ?thesis unfolding nd by simp
qed

text \<open>
  C9, as the specification states it: every field of the input point is carried
  unmodified. It fails for a marker that has a property named \<open>distance\<close> or \<open>geocode\<close>:
  the object literal sets these two after the spread, so the marker's \<open>distance\<close> 99
  becomes 0 and its \<open>geocode\<close> \<open>"x"\<close> becomes \<open>[48, 2]\<close>.
\<close>

theorem rank_passes_fields_counterexample:
  "rank exactDistance
     [(marker_at 7 48 2)(''distance'' \<mapsto> Number (Fin 99), ''geocode'' \<mapsto> Str ''x'')]
     (coords_at 0 0) False =
     Inr ([(marker_at 7 48 2)(''distance'' \<mapsto> Number (Fin 99), ''geocode'' \<mapsto> Str ''x'',
             ''geocode'' \<mapsto> coords_at 48 2, ''distance'' \<mapsto> Number (Fin 0))], None) \<and>
   get ((marker_at 7 48 2)(''distance'' \<mapsto> Number (Fin 99), ''geocode'' \<mapsto> Str ''x''))
     ''distance'' = Number (Fin 99) \<and>
   get ((marker_at 7 48 2)(''distance'' \<mapsto> Number (Fin 99), ''geocode'' \<mapsto> Str ''x'',
          ''geocode'' \<mapsto> coords_at 48 2, ''distance'' \<mapsto> Number (Fin 0)))
     ''distance'' = Number (Fin 0) \<and>
   get ((marker_at 7 48 2)(''distance'' \<mapsto> Number (Fin 99), ''geocode'' \<mapsto> Str ''x''))
     ''geocode'' = Str ''x'' \<and>
   get ((marker_at 7 48 2)(''distance'' \<mapsto> Number (Fin 99), ''geocode'' \<mapsto> Str ''x'',
          ''geocode'' \<mapsto> coords_at 48 2, ''distance'' \<mapsto> Number (Fin 0)))
     ''geocode'' = coords_at 48 2"
  by (simp add: rank_def newDistances_def get_def)

text \<open>
  C9, amended: every element of the produced list carries every property of its marker
  other than \<open>geocode\<close> and \<open>distance\<close> unchanged, whatever the properties are (\<open>id\<close>,
  \<open>name\<close>, \<open>address\<close>, \<open>latitude\<close>, \<open>longitude\<close>, \<open>printers\<close> and any other). Its
  \<open>geocode\<close> is the array of the marker's latitude and longitude and its \<open>distance\<close> is
  the computed Number, in place of the marker's properties of these names if it has
  them; the element has no further property.
\<close>

theorem rank_passes_fields:
  assumes "rank hav ms pos en = Inr (ranked', nearest)" and "i < length ms"
  shows "(\<forall>k. k \<noteq> ''geocode'' \<longrightarrow> k \<noteq> ''distance'' \<longrightarrow> (ranked' ! i) k = (ms ! i) k) \<and>
         (ranked' ! i) ''geocode'' =
           Some (Array [get (ms ! i) ''latitude'', get (ms ! i) ''longitude'']) \<and>
         (ranked' ! i) ''distance'' =
           Some (Number
             (if en
              then hav pos (Array [get (ms ! i) ''latitude'', get (ms ! i) ''longitude''])
              else Fin 0)) \<and>
         dom (ranked' ! i) = dom (ms ! i) \<union> {''geocode'', ''distance''}"
proof -
  from assms(1) have eq: "ranked' = newDistances hav ms pos en"
    by (rule rank_Inr_ranked)
  show ?thesis
    unfolding eq nth_newDistances [OF assms(2)] by auto
qed

theorem rank_passes_fields_witness:
  "rank exactDistance [marker_at 7 0 0, marker_at 9 0 180] (coords_at 0 0) True =
     Inr ([ranked_at 7 0 0 (Fin 0), ranked_at 9 0 180 (Fin (6371 * pi))],
          Some (ranked_at 7 0 0 (Fin 0))) \<and>
   (1::nat) < length [marker_at 7 0 0, marker_at 9 0 180] \<and>
   ranked_at 9 0 180 (Fin (6371 * pi)) ''id'' = marker_at 9 0 180 ''id'' \<and>
   ranked_at 9 0 180 (Fin (6371 * pi)) ''name'' = marker_at 9 0 180 ''name'' \<and>
   ranked_at 9 0 180 (Fin (6371 * pi)) ''address'' = marker_at 9 0 180 ''address'' \<and>
   ranked_at 9 0 180 (Fin (6371 * pi)) ''latitude'' = marker_at 9 0 180 ''latitude'' \<and>
   ranked_at 9 0 180 (Fin (6371 * pi)) ''longitude'' = marker_at 9 0 180 ''longitude'' \<and>
   ranked_at 9 0 180 (Fin (6371 * pi)) ''printers'' = marker_at 9 0 180 ''printers'' \<and>
   ranked_at 9 0 180 (Fin (6371 * pi)) ''geocode'' = Some (coords_at 0 180) \<and>
   ranked_at 9 0 180 (Fin (6371 * pi)) ''distance'' = Some (Number (Fin (6371 * pi)))"
proof -
  let ?ms = "[marker_at 7 0 0, marker_at 9 0 180]"
  let ?r1 = "ranked_at 7 0 0 (Fin 0)" and ?r2 = "ranked_at 9 0 180 (Fin (6371 * pi))"
  have ev: "rank exactDistance ?ms (coords_at 0 0) True = Inr ([?r1, ?r2], Some ?r1)"
    by (simp add: rank_eval)
  have i: "(1::nat) < length ?ms"
    by simp
  from rank_passes_fields [OF ev i]
  have keep: "\<forall>k. k \<noteq> ''geocode'' \<longrightarrow> k \<noteq> ''distance'' \<longrightarrow> ?r2 k = marker_at 9 0 180 k"
    and geo: "?r2 ''geocode'' = Some (coords_at 0 180)"
    and dis: "?r2 ''distance'' = Some (Number (Fin (6371 * pi)))"
    by (simp_all add: get_def exactDistance_half_equator)
  from keep have "?r2 ''id'' = marker_at 9 0 180 ''id''"
    "?r2 ''name'' = marker_at 9 0 180 ''name''"
    "?r2 ''address'' = marker_at 9 0 180 ''address''"
    "?r2 ''latitude'' = marker_at 9 0 180 ''latitude''"
    "?r2 ''longitude'' = marker_at 9 0 180 ''longitude''"
    "?r2 ''printers'' = marker_at 9 0 180 ''printers''"
    by simp_all
  with ev i geo dis show ?thesis
    by (intro conjI)
qed

text \<open>
  C10: for a non-empty list of markers and an enabled observer, the reduction does not
  throw: the effect returns, with a nearest that is not \<open>null\<close>.
\<close>

theorem rank_nonempty_enabled_defined:
  assumes "ms \<noteq> []"
  shows "\<exists>ranked' n. rank hav ms pos True = Inr (ranked', Some n)"
  using rank_enabled_nonempty [OF assms, of hav pos] by metis

theorem rank_nonempty_enabled_defined_witness:
  "[marker_at 1 0 180] \<noteq> [] \<and>
   rank exactDistance [marker_at 1 0 180] (coords_at 0 0) True =
     Inr ([ranked_at 1 0 180 (Fin (6371 * pi))], Some (ranked_at 1 0 180 (Fin (6371 * pi))))"
proof -
  have ne: "[marker_at 1 0 180] \<noteq> []" by simp
  from rank_nonempty_enabled_defined [OF ne, of exactDistance "coords_at 0 0"] obtain ranked' n where
    rk: "rank exactDistance [marker_at 1 0 180] (coords_at 0 0) True = Inr (ranked', Some n)"
    by blast
  have nd: "newDistances exactDistance [marker_at 1 0 180] (coords_at 0 0) True =
      [ranked_at 1 0 180 (Fin (6371 * pi))]"
    by (simp add: newDistances_def get_def exactDistance_half_equator)
  from rk have "ranked' = [ranked_at 1 0 180 (Fin (6371 * pi))]"
    using rank_Inr_ranked [OF rk] nd by simp
  moreover from rk have "n = ranked_at 1 0 180 (Fin (6371 * pi))"
    by (simp add: rank_def nd)
  ultimately show ?thesis using rk ne by simp
qed

end
